theory Spec2Isabelle
  imports Main
begin

section \<open>Python values\<close>

text \<open>
  The program is written in Python and passes untyped dictionaries between its functions.
  A Python value is modelled by \<open>pyval\<close>. A dictionary is an association list in insertion
  order (Python dictionaries keep it, and the serialiser writes keys in that order); its keys
  are strings, as every dictionary of the program has. Tuples are kept apart from lists: the
  settings mappings of the descriptors are typed \<open>Dict[str, Any]\<close>, so a caller may store one.
  Floating point numbers are not modelled.

  A Python \<open>str\<close> is modelled by \<open>string\<close>; a character outside ASCII stands as its UTF-8
  bytes.
\<close>

datatype pyval =
    PNone
  | PBool bool
  | PInt int
  | PStr string
  | PList "pyval list"
  | PTuple "pyval list"
  | PDict "(string \<times> pyval) list"

type_synonym pydict = "(string \<times> pyval) list"

text \<open>
  Exceptions are values. \<open>ValueError\<close> carries the message the source gives it; where the
  interpreter raises it (unpacking too few values, \<open>int\<close> of a malformed literal) the message
  is the interpreter's, without the echoed argument.
\<close>

datatype error =
    ValueError string
  | KeyError string
  | AttributeError
  | UnboundLocalError
  | FileNotFoundError

text \<open>\<open>d[k] = v\<close>: an existing key keeps its position, a new key goes last.\<close>

fun dict_set :: "(string \<times> 'v) list \<Rightarrow> string \<Rightarrow> 'v \<Rightarrow> (string \<times> 'v) list" where
  "dict_set [] k v = [(k, v)]"
| "dict_set ((k', v') # d) k v =
     (if k' = k then (k, v) # d else (k', v') # dict_set d k v)"

text \<open>\<open>d.update(other)\<close> and \<open>dict(pairs)\<close>: the pairs are stored from left to right.\<close>

definition dict_update :: "(string \<times> 'v) list \<Rightarrow> (string \<times> 'v) list \<Rightarrow> (string \<times> 'v) list" where
  "dict_update d other = foldl (\<lambda>acc (k, v). dict_set acc k v) d other"

definition dict_of_pairs :: "(string \<times> 'v) list \<Rightarrow> (string \<times> 'v) list" where
  "dict_of_pairs pairs = dict_update [] pairs"

text \<open>\<open>d.get(k)\<close> is \<open>map_of d k\<close>; \<open>d.get(k, default)\<close> and \<open>d[k]\<close> follow.\<close>

definition dict_get :: "(string \<times> 'v) list \<Rightarrow> string \<Rightarrow> 'v \<Rightarrow> 'v" where
  "dict_get d k dflt = (case map_of d k of None \<Rightarrow> dflt | Some v \<Rightarrow> v)"

definition dict_item :: "(string \<times> 'v) list \<Rightarrow> string \<Rightarrow> error + 'v" where
  "dict_item d k = (case map_of d k of None \<Rightarrow> Inl (KeyError k) | Some v \<Rightarrow> Inr v)"

text \<open>Sequencing: the first exception raised ends the evaluation.\<close>

definition and_then :: "error + 'a \<Rightarrow> ('a \<Rightarrow> error + 'b) \<Rightarrow> error + 'b" where
  "and_then r f = (case r of Inl e \<Rightarrow> Inl e | Inr x \<Rightarrow> f x)"

text \<open>\<open>v.get\<close> exists only on a dictionary; on any other value the attribute lookup raises.\<close>

fun as_dict :: "pyval \<Rightarrow> error + pydict" where
  "as_dict (PDict d) = Inr d"
| "as_dict _ = Inl AttributeError"

text \<open>Truth value of a Python object, as \<open>if x:\<close> tests it.\<close>

fun truthy :: "pyval \<Rightarrow> bool" where
  "truthy PNone = False"
| "truthy (PBool b) = b"
| "truthy (PInt i) = (i \<noteq> 0)"
| "truthy (PStr s) = (s \<noteq> [])"
| "truthy (PList vs) = (vs \<noteq> [])"
| "truthy (PTuple vs) = (vs \<noteq> [])"
| "truthy (PDict d) = (d \<noteq> [])"

section \<open>The string functions the decoder calls\<close>

text \<open>
  These are functions of Python's \<open>str\<close> and of \<open>urllib.parse\<close>, modelled on ASCII text as
  the interpreter documents them.
\<close>

text \<open>\<open>str.isspace\<close> on one ASCII character: tab to carriage return, the four separators, space.\<close>

definition isspace :: "char \<Rightarrow> bool" where
  "isspace c = (let n = (of_char c :: nat) in (9 \<le> n \<and> n \<le> 13) \<or> (28 \<le> n \<and> n \<le> 32))"

definition strip :: "string \<Rightarrow> string" where
  "strip s = rev (dropWhile isspace (rev (dropWhile isspace s)))"

definition startswith :: "string \<Rightarrow> string \<Rightarrow> bool" where
  "startswith s p = (take (length p) s = p)"

text \<open>
  \<open>s.replace(old, new)\<close> for a non-empty \<open>old\<close>: every occurrence, found from the left and not
  overlapping, is replaced.
\<close>

fun replace :: "string \<Rightarrow> string \<Rightarrow> string \<Rightarrow> string" where
  "replace old new [] = []"
| "replace old new (c # cs) =
     (if old \<noteq> [] \<and> startswith (c # cs) old
      then new @ replace old new (drop (length old - 1) cs)
      else c # replace old new cs)"

text \<open>
  \<open>s.split(sep)\<close> and \<open>s.split(sep, n)\<close> for a separator of one character. The result is never
  empty: a string without the separator is returned as the only element.
\<close>

fun split_from :: "char \<Rightarrow> string \<Rightarrow> string \<Rightarrow> string list" where
  "split_from sep piece [] = [rev piece]"
| "split_from sep piece (c # cs) =
     (if c = sep then rev piece # split_from sep [] cs
      else split_from sep (c # piece) cs)"

definition split :: "char \<Rightarrow> string \<Rightarrow> string list" where
  "split sep s = split_from sep [] s"

primrec split_n :: "char \<Rightarrow> nat \<Rightarrow> string \<Rightarrow> string list" where
  "split_n sep 0 s = [s]"
| "split_n sep (Suc n) s =
     (if sep \<in> set s
      then takeWhile (\<lambda>c. c \<noteq> sep) s # split_n sep n (tl (dropWhile (\<lambda>c. c \<noteq> sep) s))
      else [s])"

text \<open>\<open>s.rsplit(sep, n)\<close> splits from the right.\<close>

definition rsplit_n :: "char \<Rightarrow> nat \<Rightarrow> string \<Rightarrow> string list" where
  "rsplit_n sep n s = rev (map rev (split_n sep n (rev s)))"

text \<open>
  \<open>urllib.parse.unquote\<close>: a percent sign followed by two hexadecimal digits becomes the byte
  they name; any other percent sign stays. (The library then reads the bytes as UTF-8; the
  model keeps them as they are, and does not replace ill-formed sequences.)
\<close>

definition hexval :: "char \<Rightarrow> nat option" where
  "hexval c =
     (let n = (of_char c :: nat) in
      if 48 \<le> n \<and> n \<le> 57 then Some (n - 48)
      else if 65 \<le> n \<and> n \<le> 70 then Some (n - 55)
      else if 97 \<le> n \<and> n \<le> 102 then Some (n - 87)
      else None)"

fun unquote :: "string \<Rightarrow> string" where
  "unquote (c # a # b # rest) =
     (if c = CHR ''%'' then
        (case hexval a of
           None \<Rightarrow> c # unquote (a # b # rest)
         | Some h \<Rightarrow>
             (case hexval b of
                None \<Rightarrow> c # unquote (a # b # rest)
              | Some l \<Rightarrow> char_of (16 * h + l) # unquote rest))
      else c # unquote (a # b # rest))"
| "unquote s = s"

text \<open>
  \<open>urllib.parse.parse_qsl(qs, keep_blank_values)\<close>: the fields between ampersands, each split
  at its first equals sign. An empty field is skipped; so is a field without an equals sign
  and, unless blank values are kept, a field whose value is empty. In what is kept, a plus
  sign is a space, and name and value are unquoted.
\<close>

definition plus_to_space :: "string \<Rightarrow> string" where
  "plus_to_space s = map (\<lambda>c. if c = CHR ''+'' then CHR '' '' else c) s"

definition parse_field :: "bool \<Rightarrow> string \<Rightarrow> (string \<times> string) list" where
  "parse_field keep_blank_values name_value =
     (if name_value = [] then []
      else
        (case split_n (CHR ''='') 1 name_value of
           [name, val] \<Rightarrow>
             (if val \<noteq> [] \<or> keep_blank_values
              then [(unquote (plus_to_space name), unquote (plus_to_space val))]
              else [])
         | _ \<Rightarrow>
             (if keep_blank_values
              then [(unquote (plus_to_space name_value), [])]
              else [])))"

definition parse_qsl :: "bool \<Rightarrow> string \<Rightarrow> (string \<times> string) list" where
  "parse_qsl keep_blank_values qs =
     concat (map (parse_field keep_blank_values) (split (CHR ''&'') qs))"

text \<open>
  \<open>int(s)\<close> in base ten: surrounding whitespace is dropped, one sign may lead, and the digits
  may be grouped by single underscores. \<open>None\<close> stands for the \<open>ValueError\<close> it raises.
  (The interpreter's ceiling on the number of digits is not modelled.)
\<close>

definition digit_val :: "char \<Rightarrow> int option" where
  "digit_val c =
     (let n = (of_char c :: nat) in
      if 48 \<le> n \<and> n \<le> 57 then Some (int n - 48) else None)"

fun int_digits :: "int \<Rightarrow> string \<Rightarrow> int option" where
  "int_digits acc [] = Some acc"
| "int_digits acc [c] =
     (case digit_val c of None \<Rightarrow> None | Some v \<Rightarrow> Some (10 * acc + v))"
| "int_digits acc (c # d # ds) =
     (if c = CHR ''_'' then
        (case digit_val d of
           None \<Rightarrow> None
         | Some v \<Rightarrow> int_digits (10 * acc + v) ds)
      else
        (case digit_val c of
           None \<Rightarrow> None
         | Some v \<Rightarrow> int_digits (10 * acc + v) (d # ds)))"

definition py_int :: "string \<Rightarrow> int option" where
  "py_int s =
     (let t = strip s;
          neg = (t \<noteq> [] \<and> hd t = CHR ''-'');
          body = (if t \<noteq> [] \<and> (hd t = CHR ''-'' \<or> hd t = CHR ''+'') then tl t else t)
      in case body of
           [] \<Rightarrow> None
         | c # cs \<Rightarrow>
             (case digit_val c of
                None \<Rightarrow> None
              | Some v \<Rightarrow> map_option (\<lambda>n. if neg then - n else n) (int_digits v cs)))"

section \<open>url\_parser.py: the decoder\<close>

text \<open>
  \<open>a, b = xs\<close> raises \<open>ValueError\<close> unless \<open>xs\<close> has exactly two elements. After a split with
  at most one cut the list has one or two, so the message is that of too few values.
\<close>

definition unpack_error :: error where
  "unpack_error = ValueError ''not enough values to unpack (expected 2, got 1)''"

text \<open>Lines 24 to 28 of \<open>_parse_vless\<close>: the fragment is the display name.\<close>

definition split_fragment :: "string \<Rightarrow> error + string \<times> string" where
  "split_fragment url =
     (if CHR ''#'' \<in> set url then
        (case split_n (CHR ''#'') 1 url of
           [u, remarks] \<Rightarrow> Inr (u, unquote remarks)
         | _ \<Rightarrow> Inl unpack_error)
      else Inr (url, ''VLESS''))"

text \<open>Lines 30 to 35: the query becomes a dictionary, a later pair replacing an earlier one.\<close>

definition split_query :: "string \<Rightarrow> error + string \<times> (string \<times> string) list" where
  "split_query url =
     (if CHR ''?'' \<in> set url then
        (case split_n (CHR ''?'') 1 url of
           [server_part, params_part] \<Rightarrow>
             Inr (server_part, dict_of_pairs (parse_qsl False params_part))
         | _ \<Rightarrow> Inl unpack_error)
      else Inr (url, []))"

text \<open>Lines 37 to 39: user identifier, host and port.\<close>

definition split_authority :: "string \<Rightarrow> error + string \<times> string \<times> int" where
  "split_authority server_part =
     (case split_n (CHR ''@'') 1 server_part of
        [uuid, server_and_port] \<Rightarrow>
          (case rsplit_n (CHR '':'') 1 server_and_port of
             [server, port_text] \<Rightarrow>
               (case py_int port_text of
                  None \<Rightarrow> Inl (ValueError ''invalid literal for int() with base 10'')
                | Some p \<Rightarrow> Inr (uuid, server, p))
           | _ \<Rightarrow> Inl unpack_error)
      | _ \<Rightarrow> Inl unpack_error)"

text \<open>\<open>params.get(k)\<close> as a Python value: \<open>None\<close> when the key is missing.\<close>

definition get_or_none :: "(string \<times> string) list \<Rightarrow> string \<Rightarrow> pyval" where
  "get_or_none params k = (case map_of params k of None \<Rightarrow> PNone | Some v \<Rightarrow> PStr v)"

text \<open>
  Lines 41 to 74: the parsed endpoint. The keys are spelled as the source spells them
  (\<open>serverr\<close>, \<open>enctyption\<close>). \<open>network\<close> and \<open>security\<close> are the values just stored under
  these keys, which the source reads back from the dictionary.
\<close>

definition make_config ::
  "string \<Rightarrow> string \<Rightarrow> string \<Rightarrow> int \<Rightarrow> (string \<times> string) list \<Rightarrow> pydict" where
  "make_config remarks uuid server p params =
     (let network = dict_get params ''network'' ''tcp'';
          security = dict_get params ''security'' ''none'';
          config =
            [(''name'', PStr remarks),
             (''protocol'', PStr ''vless''),
             (''serverr'', PStr server),
             (''port'', PInt p),
             (''uuid'', PStr uuid),
             (''enctyption'', PStr (dict_get params ''enctyption'' ''none'')),
             (''flow'', PStr (dict_get params ''flow'' '''')),
             (''network'', PStr network),
             (''security'', PStr security)];
          config =
            (if network = ''tcp'' then
               dict_set config ''tcp''
                 (PDict [(''header_type'', PStr (dict_get params ''headerType'' ''none''))])
             else if network = ''ws'' then
               dict_set config ''ws''
                 (PDict [(''path'', PStr (dict_get params ''path'' ''/'')),
                         (''host'', get_or_none params ''host'')])
             else if network = ''grpc'' then
               dict_set config ''grpc''
                 (PDict [(''service_name'', PStr (dict_get params ''serviceName'' ''''))])
             else config)
      in
        if security \<in> set [''tls'', ''reality''] then
          (let config =
                 dict_set config ''tls''
                   (PDict [(''server_name'', PStr (dict_get params ''sni'' server)),
                           (''fingerprint'', PStr (dict_get params ''fp'' ''chrome'')),
                           (''alpn'',
                              (if truthy (get_or_none params ''alpn'')
                               then PList (map PStr (split (CHR '','') (dict_get params ''alpn'' '''')))
                               else PList []))])
           in
             if security = ''reality'' then
               dict_set config ''reality''
                 (PDict [(''public_key'', PStr (dict_get params ''pbk'' '''')),
                         (''short_id'', PStr (dict_get params ''sid'' '''')),
                         (''spider_x'', PStr (dict_get params ''spx'' ''''))])
             else config)
        else config)"

definition parse_vless :: "string \<Rightarrow> error + pydict" where
  "parse_vless url =
     (case split_fragment (replace ''vless://'' '''' url) of
        Inl e \<Rightarrow> Inl e
      | Inr (url, remarks) \<Rightarrow>
          (case split_query url of
             Inl e \<Rightarrow> Inl e
           | Inr (server_part, params) \<Rightarrow>
               (case split_authority server_part of
                  Inl e \<Rightarrow> Inl e
                | Inr (uuid, server, p) \<Rightarrow> Inr (make_config remarks uuid server p params))))"

text \<open>\<open>V2rayParser.parse\<close>: \<open>None\<close> for a string of another scheme.\<close>

definition parse :: "string \<Rightarrow> error + pydict option" where
  "parse url =
     (let url = strip url in
      if startswith url ''vless://'' then map_sum id Some (parse_vless url) else Inr None)"

section \<open>url\_parser.py: the decoder's assembler\<close>

text \<open>Lines 101 to 117 of \<open>_build_vless\<close>: the transport block added to the stream settings.\<close>

definition transport_settings :: "pydict \<Rightarrow> pyval \<Rightarrow> pydict \<Rightarrow> error + pydict" where
  "transport_settings config network stream =
     (if network = PStr ''tcp'' then
        (case as_dict (dict_get config ''tcp'' (PDict [])) of
           Inl e \<Rightarrow> Inl e
         | Inr tcp_config \<Rightarrow>
             Inr (dict_set stream ''tcpSettings''
                   (PDict [(''header'',
                      PDict [(''type'', dict_get tcp_config ''header_type'' (PStr ''none''))])])))
      else if network = PStr ''ws'' then
        (case as_dict (dict_get config ''ws'' (PDict [])) of
           Inl e \<Rightarrow> Inl e
         | Inr ws_config \<Rightarrow>
             Inr (dict_set stream ''wsSettings''
                   (PDict [(''path'', dict_get ws_config ''path'' (PStr ''/'')),
                           (''headers'',
                              (if truthy (dict_get ws_config ''host'' PNone)
                               then PDict [(''Host'', dict_get ws_config ''host'' (PStr ''''))]
                               else PDict []))])))
      else if network = PStr ''grpc'' then
        (case as_dict (dict_get config ''grpc'' (PDict [])) of
           Inl e \<Rightarrow> Inl e
         | Inr grpc_config \<Rightarrow>
             Inr (dict_set stream ''grpcSettings''
                   (PDict [(''serviceName'', dict_get grpc_config ''service_name'' (PStr ''''))])))
      else Inr stream)"

text \<open>Lines 119 to 136: the security block.\<close>

definition security_settings :: "pydict \<Rightarrow> pyval \<Rightarrow> pyval \<Rightarrow> pydict \<Rightarrow> error + pydict" where
  "security_settings config security server stream =
     (if security \<in> set [PStr ''tls'', PStr ''reality''] then
        (let tls_value = dict_get config ''tls'' (PDict []) in
         if security = PStr ''tls'' then
           (case as_dict tls_value of
              Inl e \<Rightarrow> Inl e
            | Inr tls_config \<Rightarrow>
                Inr (dict_set stream ''tlsSettings''
                      (PDict [(''serverName'', dict_get tls_config ''server_name'' server),
                              (''fingerprint'', dict_get tls_config ''fingerprint'' (PStr ''chrome'')),
                              (''alpn'', dict_get tls_config ''alpn'' (PList []))])))
         else if security = PStr ''reality'' then
           (let reality_value = dict_get config ''reality'' (PDict []) in
            case as_dict tls_value of
              Inl e \<Rightarrow> Inl e
            | Inr tls_config \<Rightarrow>
                (case as_dict reality_value of
                   Inl e \<Rightarrow> Inl e
                 | Inr reality_config \<Rightarrow>
                     Inr (dict_set stream ''realitySettings''
                           (PDict [(''serverName'', dict_get tls_config ''server_name'' server),
                                   (''fingerprint'',
                                      dict_get tls_config ''fingerprint'' (PStr ''chrome'')),
                                   (''publicKey'', dict_get reality_config ''public_key'' (PStr '''')),
                                   (''shortId'', dict_get reality_config ''short_id'' (PStr '''')),
                                   (''spiderX'', dict_get reality_config ''spider_x'' (PStr ''''))]))))
         else Inr stream)
      else Inr stream)"

text \<open>
  \<open>_build_vless\<close>. The subscripts \<open>config["server"]\<close>, \<open>config["port"]\<close>, \<open>config["uuid"]\<close>,
  \<open>config["encryption"]\<close>, \<open>config["network"]\<close> and \<open>config["security"]\<close> are evaluated in this
  order while the outbound literal is built, and each raises \<open>KeyError\<close> on a missing key.
\<close>

definition build_vless :: "pydict \<Rightarrow> error + pyval" where
  "build_vless config =
     and_then (dict_item config ''server'') (\<lambda>server.
     and_then (dict_item config ''port'') (\<lambda>server_port.
     and_then (dict_item config ''uuid'') (\<lambda>uuid.
     and_then (dict_item config ''encryption'') (\<lambda>encryption.
     and_then (dict_item config ''network'') (\<lambda>network.
     and_then (dict_item config ''security'') (\<lambda>security.
     and_then (transport_settings config network
                 [(''network'', network), (''security'', security)]) (\<lambda>stream.
     and_then (security_settings config security server stream) (\<lambda>stream.
       Inr (PDict
         [(''protocol'', PStr ''vless''),
          (''settings'',
             PDict [(''vnext'',
               PList [PDict
                 [(''address'', server),
                  (''port'', server_port),
                  (''users'',
                     PList [PDict
                       [(''id'', uuid),
                        (''encryption'', encryption),
                        (''flow'', dict_get config ''flow'' (PStr ''''))]])]])]),
          (''streamSettings'', PDict stream)])))))))))"

text \<open>
  \<open>V2rayParser.build_config\<close>. For a protocol other than \<open>vless\<close> the name \<open>outbound\<close> is
  never bound, and reading it raises.
\<close>

definition V2rayParser_build_config :: "pydict \<Rightarrow> int \<Rightarrow> error + pyval" where
  "V2rayParser_build_config parsed_config inbound_port =
     and_then (dict_item parsed_config ''protocol'') (\<lambda>proto.
     and_then (if proto = PStr ''vless'' then build_vless parsed_config
               else Inl UnboundLocalError) (\<lambda>outbound.
       Inr (PDict
         [(''log'', PDict [(''loglevel'', PStr ''warning'')]),
          (''inbounds'',
             PList [PDict
               [(''port'', PInt inbound_port),
                (''protocol'', PStr ''socks''),
                (''settings'', PDict [(''auth'', PStr ''noauth''), (''udp'', PBool True)]),
                (''sniffing'',
                   PDict [(''enabled'', PBool True),
                          (''destOverride'', PList [PStr ''http'', PStr ''tls''])])]]),
          (''outbounds'',
             PList [outbound,
                    PDict [(''protocol'', PStr ''freedom''), (''tag'', PStr ''direct'')],
                    PDict [(''protocol'', PStr ''blackhole''), (''tag'', PStr ''block'')]]),
          (''routing'',
             PDict [(''rules'',
               PList [PDict
                 [(''type'', PStr ''field''),
                  (''ip'', PList [PStr ''geoip:private'']),
                  (''outboundTag'', PStr ''direct'')]])])])))"

section \<open>config.py: descriptors\<close>

datatype InboundProtocol = SOCKS | HTTP

fun InboundProtocol_value :: "InboundProtocol \<Rightarrow> string" where
  "InboundProtocol_value SOCKS = ''socks''"
| "InboundProtocol_value HTTP = ''http''"

datatype OutboundProtocol = VLESS

fun OutboundProtocol_value :: "OutboundProtocol \<Rightarrow> string" where
  "OutboundProtocol_value VLESS = ''vless''"

datatype LogLevel = DEBUG | INFO | WARNING | ERROR | CRITICAL

fun LogLevel_value :: "LogLevel \<Rightarrow> string" where
  "LogLevel_value DEBUG = ''debug''"
| "LogLevel_value INFO = ''info''"
| "LogLevel_value WARNING = ''warning''"
| "LogLevel_value ERROR = ''error''"
| "LogLevel_value CRITICAL = ''critical''"

text \<open>
  Objects live in a store and are named by their address. The settings mapping of an inbound
  descriptor is a dictionary object of its own, so the descriptor holds its address: two
  descriptors may share one mapping, and a write through one is seen through the other.
\<close>

type_synonym addr = nat

record InboundConfig =
  port :: int
  protocol :: InboundProtocol
  listen :: string
  settings :: addr

text \<open>
  \<open>InboundConfig(port, protocol, listen, settings)\<close>: the generated initialiser stores the
  fields and then runs \<open>__post_init__\<close>, which rejects the port outside the open interval.
\<close>

definition InboundConfig_init ::
  "int \<Rightarrow> InboundProtocol \<Rightarrow> string \<Rightarrow> addr \<Rightarrow> error + InboundConfig" where
  "InboundConfig_init p pr l s =
     (if \<not> (1024 < p \<and> p < 65535)
      then Inl (ValueError ''Port must be between 1025 and 65534'')
      else Inr \<lparr>port = p, protocol = pr, listen = l, settings = s\<rparr>)"

text \<open>
  The class statement. \<open>InboundConfig\<close> is declared under \<open>@dataclass\<close>, and the decorator
  runs when the class statement does, that is, when \<open>config.py\<close> is imported. It reads the
  default of every field in the order declared and raises \<open>ValueError\<close> for a default that
  is a list or a dictionary (a value that cannot be hashed): all instances would share it.
  A default is a literal or a member of an enumeration. The message is the library's,
  without the class of the default.
\<close>

datatype field_default = Literal pyval | Member string

fun hashable_default :: "field_default \<Rightarrow> bool" where
  "hashable_default (Literal (PList vs)) = False"
| "hashable_default (Literal (PDict d)) = False"
| "hashable_default _ = True"

fun dataclass :: "(string \<times> field_default) list \<Rightarrow> error + unit" where
  "dataclass [] = Inr ()"
| "dataclass ((name, d) # rest) =
     (if hashable_default d then dataclass rest
      else Inl (ValueError
             (''mutable default for field '' @ name @ '' is not allowed: use default_factory'')))"

text \<open>Lines 25 to 39: the four fields of \<open>InboundConfig\<close> and their defaults.\<close>

definition InboundConfig_class :: "error + unit" where
  "InboundConfig_class =
     dataclass
       [(''port'', Literal (PInt 1080)),
        (''protocol'', Member ''InboundProtocol.SOCKS''),
        (''listen'', Literal (PStr ''127.0.0.1'')),
        (''settings'', Literal (PDict []))]"

text \<open>
  Constructing a descriptor in the program as written: the class statement has run, and then
  the initialiser is called.
\<close>

definition InboundConfig_new ::
  "int \<Rightarrow> InboundProtocol \<Rightarrow> string \<Rightarrow> addr \<Rightarrow> error + InboundConfig" where
  "InboundConfig_new p pr l s = and_then InboundConfig_class (\<lambda>u. InboundConfig_init p pr l s)"

record OutboundConfig =
  protocol :: OutboundProtocol
  settings :: pydict
  stream_settings :: "pydict option"

section \<open>config.py: the builder\<close>

text \<open>
  The builder's fields. The inbound list holds the addresses of the descriptors registered,
  so an element of the list is the caller's object and not a copy of it. Outbound descriptors
  are never written to after they are created and are held by value.
\<close>

record ClientConfig =
  config_path :: string
  inbound_configs :: "addr list"
  outbound_configs :: "OutboundConfig list"
  log_level :: LogLevel

text \<open>
  A JSON document, as \<open>json.dump\<close> writes it and \<open>json.load\<close> reads it. The file of the
  builder holds JSON text; the model keeps the JSON value this text denotes, and leaves the
  layout of the text (\<open>indent=4\<close>) to the library.
\<close>

datatype json =
    JNull
  | JBool bool
  | JInt int
  | JStr string
  | JArr "json list"
  | JObj "(string \<times> json) list"

text \<open>
  The state the methods of the builder work on: the builder itself, the inbound descriptors
  and the settings mappings that exist, each by address, and the files by path. The methods
  are modelled on every such state, whatever created its objects.
\<close>

record state =
  builder :: ClientConfig
  descriptors :: "addr \<Rightarrow> InboundConfig"
  mappings :: "addr \<Rightarrow> pydict"
  files :: "string \<Rightarrow> json option"

definition ClientConfig_init :: "string \<Rightarrow> ClientConfig" where
  "ClientConfig_init path =
     \<lparr>config_path = path, inbound_configs = [], outbound_configs = [], log_level = WARNING\<rparr>"

text \<open>\<open>LogLevel(text)\<close>: the member with this value, if there is one.\<close>

definition LogLevel_of_value :: "string \<Rightarrow> LogLevel option" where
  "LogLevel_of_value v =
     (if v = ''debug'' then Some DEBUG
      else if v = ''info'' then Some INFO
      else if v = ''warning'' then Some WARNING
      else if v = ''error'' then Some ERROR
      else if v = ''critical'' then Some CRITICAL
      else None)"

text \<open>\<open>set_log_level\<close> takes a member of the enumeration (\<open>Inl\<close>) or its name as text (\<open>Inr\<close>).\<close>

definition set_log_level :: "LogLevel + string \<Rightarrow> state \<Rightarrow> (error + unit) \<times> state" where
  "set_log_level level s =
     (case level of
        Inl l \<Rightarrow> (Inr (), s\<lparr>builder := (builder s)\<lparr>log_level := l\<rparr>\<rparr>)
      | Inr v \<Rightarrow>
          (case LogLevel_of_value v of
             None \<Rightarrow> (Inl (ValueError (''Unknown log level: '' @ v)), s)
           | Some l \<Rightarrow> (Inr (), s\<lparr>builder := (builder s)\<lparr>log_level := l\<rparr>\<rparr>)))"

text \<open>
  \<open>add_inbound\<close>: \<open>inbound_config.settings.update(...)\<close> writes to the mapping object the
  descriptor refers to, and \<open>self.inbound_configs.append(inbound_config)\<close> stores the
  reference passed.
\<close>

definition add_inbound :: "addr \<Rightarrow> state \<Rightarrow> state" where
  "add_inbound inbound_config s =
     (let ic = descriptors s inbound_config;
          m = InboundConfig.settings ic;
          s = (if InboundConfig.protocol ic = SOCKS then
                 s\<lparr>mappings := (mappings s)
                     (m := dict_update (mappings s m)
                        [(''auth'', PStr ''noauth''),
                         (''udp'', PBool True),
                         (''ip'', PStr (listen ic))])\<rparr>
               else if InboundConfig.protocol ic = HTTP then
                 s\<lparr>mappings := (mappings s)
                     (m := dict_update (mappings s m)
                        [(''timeout'', PInt 0),
                         (''allowTransparent'', PBool False)])\<rparr>
               else s)
      in s\<lparr>builder := (builder s)
            \<lparr>inbound_configs := inbound_configs (builder s) @ [inbound_config]\<rparr>\<rparr>)"

definition add_inbounds :: "addr list \<Rightarrow> state \<Rightarrow> state" where
  "add_inbounds configs s = foldl (\<lambda>s a. add_inbound a s) s configs"


definition validate :: "state \<Rightarrow> error + unit" where
  "validate s =
     (if inbound_configs (builder s) = [] then
        Inl (ValueError ''Inbound configuration is not set'')
      else if outbound_configs (builder s) = [] then
        Inl (ValueError ''Outbound configuration is not set'')
      else Inr ())"

text \<open>The two loops of \<open>ClientConfig.build_config\<close>, one element each.\<close>

definition inbound_dict :: "state \<Rightarrow> addr \<Rightarrow> pyval" where
  "inbound_dict s a =
     (let inbound = descriptors s a in
      PDict [(''port'', PInt (port inbound)),
             (''listen'', PStr (listen inbound)),
             (''protocol'', PStr (InboundProtocol_value (InboundConfig.protocol inbound))),
             (''settings'', PDict (mappings s (InboundConfig.settings inbound)))])"

definition outbound_dict :: "OutboundConfig \<Rightarrow> pyval" where
  "outbound_dict outbound =
     (let d = [(''protocol'', PStr (OutboundProtocol_value (protocol outbound))),
               (''settings'', PDict (settings outbound))]
      in case stream_settings outbound of
           None \<Rightarrow> PDict d
         | Some st \<Rightarrow> if st \<noteq> [] then PDict (dict_set d ''streamSettings'' (PDict st)) else PDict d)"

text \<open>
  \<open>ClientConfig.build_config\<close> validates first and writes to nothing: the state it returns
  is the state it was given.
\<close>

definition ClientConfig_build_config :: "state \<Rightarrow> (error + pyval) \<times> state" where
  "ClientConfig_build_config s =
     (case validate s of
        Inl e \<Rightarrow> (Inl e, s)
      | Inr _ \<Rightarrow>
          (Inr (PDict
             [(''log'', PDict [(''loglevel'', PStr (LogLevel_value (log_level (builder s))))]),
              (''inbounds'', PList (map (inbound_dict s) (inbound_configs (builder s)))),
              (''outbounds'', PList (map outbound_dict (outbound_configs (builder s)))),
              (''routing'',
                 PDict [(''domainStrategy'', PStr ''IPIfNonMatch''),
                        (''rules'',
                           PList [PDict
                             [(''type'', PStr ''field''),
                              (''outboundTag'', PStr ''direct''),
                              (''ip'', PList [PStr ''geoip:private''])]])])]),
           s))"





section \<open>What the statements observe\<close>

text \<open>
  The decoder followed by its assembler, as a caller chains them:
  \<open>V2rayParser.build_config(V2rayParser.parse(url), inbound_port)\<close>, with nothing assembled
  when the decoder returns \<open>None\<close>.
\<close>

definition decode_then_assemble :: "string \<Rightarrow> int \<Rightarrow> error + pyval option" where
  "decode_then_assemble url inbound_port =
     and_then (parse url) (\<lambda>r.
       case r of
         None \<Rightarrow> Inr None
       | Some parsed_config \<Rightarrow>
           map_sum id Some (V2rayParser_build_config parsed_config inbound_port))"

text \<open>
  The transport records a parsed endpoint holds, among \<open>tcp\<close>, \<open>ws\<close> and \<open>grpc\<close>, and the field
  names of the record stored under a key.
\<close>

definition transport_records :: "pydict \<Rightarrow> string list" where
  "transport_records cfg = filter (\<lambda>k. map_of cfg k \<noteq> None) [''tcp'', ''ws'', ''grpc'']"

definition record_keys :: "pydict \<Rightarrow> string \<Rightarrow> string list" where
  "record_keys cfg k = (case map_of cfg k of Some (PDict d) \<Rightarrow> map fst d | _ \<Rightarrow> [])"

text \<open>
  The pieces of a URI as the decoder cuts it: what is left of the stripped text once the
  scheme prefix is removed and the fragment cut off; of that, the authority segment before
  the first question mark, and the query string after it.
\<close>

definition body :: "string \<Rightarrow> string" where
  "body url = takeWhile (\<lambda>c. c \<noteq> CHR ''#'') (replace ''vless://'' '''' (strip url))"

definition authority :: "string \<Rightarrow> string" where
  "authority url = takeWhile (\<lambda>c. c \<noteq> CHR ''?'') (body url)"

definition query_string :: "string \<Rightarrow> string" where
  "query_string url = drop (Suc (length (authority url))) (body url)"

text \<open>
  Every value the query string gives to \<open>alpn\<close>, in the order written, the empty ones
  included.
\<close>

definition alpn_values :: "string \<Rightarrow> string list" where
  "alpn_values url =
     map snd (filter (\<lambda>kv. fst kv = ''alpn'') (parse_qsl True (query_string url)))"

text \<open>The ALPN list of a parsed endpoint: a field of its security record \<open>tls\<close>, if it has one.\<close>

definition alpn_field :: "pydict \<Rightarrow> pyval option" where
  "alpn_field cfg = (case map_of cfg ''tls'' of Some (PDict t) \<Rightarrow> map_of t ''alpn'' | _ \<Rightarrow> None)"

text \<open>
  The parsed endpoint in parts: the nine entries always present, then the transport record,
  then the security records. \<open>make_config\<close> is shown below to be their concatenation.
\<close>

definition base_config ::
  "string \<Rightarrow> string \<Rightarrow> string \<Rightarrow> int \<Rightarrow> (string \<times> string) list \<Rightarrow> pydict" where
  "base_config remarks uuid server p params =
     [(''name'', PStr remarks),
      (''protocol'', PStr ''vless''),
      (''serverr'', PStr server),
      (''port'', PInt p),
      (''uuid'', PStr uuid),
      (''enctyption'', PStr (dict_get params ''enctyption'' ''none'')),
      (''flow'', PStr (dict_get params ''flow'' '''')),
      (''network'', PStr (dict_get params ''network'' ''tcp'')),
      (''security'', PStr (dict_get params ''security'' ''none''))]"

definition transport_part :: "(string \<times> string) list \<Rightarrow> pydict" where
  "transport_part params =
     (let network = dict_get params ''network'' ''tcp'' in
      if network = ''tcp'' then
        [(''tcp'', PDict [(''header_type'', PStr (dict_get params ''headerType'' ''none''))])]
      else if network = ''ws'' then
        [(''ws'', PDict [(''path'', PStr (dict_get params ''path'' ''/'')),
                         (''host'', get_or_none params ''host'')])]
      else if network = ''grpc'' then
        [(''grpc'', PDict [(''service_name'', PStr (dict_get params ''serviceName'' ''''))])]
      else [])"

definition alpn_list :: "(string \<times> string) list \<Rightarrow> pyval" where
  "alpn_list params =
     (if truthy (get_or_none params ''alpn'')
      then PList (map PStr (split (CHR '','') (dict_get params ''alpn'' '''')))
      else PList [])"

definition security_part :: "string \<Rightarrow> (string \<times> string) list \<Rightarrow> pydict" where
  "security_part server params =
     (let security = dict_get params ''security'' ''none'' in
      (if security = ''tls'' \<or> security = ''reality'' then
         [(''tls'',
           PDict [(''server_name'', PStr (dict_get params ''sni'' server)),
                  (''fingerprint'', PStr (dict_get params ''fp'' ''chrome'')),
                  (''alpn'', alpn_list params)])]
       else [])
      @ (if security = ''reality'' then
           [(''reality'',
             PDict [(''public_key'', PStr (dict_get params ''pbk'' '''')),
                    (''short_id'', PStr (dict_get params ''sid'' '''')),
                    (''spider_x'', PStr (dict_get params ''spx'' ''''))])]
         else []))"

text \<open>
  A state to start from: a fresh builder for \<open>config.json\<close>, no file, and at every address a
  descriptor with the default field values of \<open>InboundConfig\<close> and an empty settings mapping.
\<close>

definition fresh_state :: state where
  "fresh_state =
     \<lparr>builder = ClientConfig_init ''config.json'',
      descriptors =
        (\<lambda>a. \<lparr>port = 1080, protocol = SOCKS, listen = ''127.0.0.1'', settings = a\<rparr>),
      mappings = (\<lambda>a. []),
      files = (\<lambda>path. None)\<rparr>"





text \<open>
  The record a parsed endpoint holds under a key, as the assembler reads it with
  \<open>config.get(key, {})\<close>, and whether every record present is a dictionary.
\<close>

definition record_of :: "pydict \<Rightarrow> string \<Rightarrow> pydict" where
  "record_of config k = (case map_of config k of Some (PDict d) \<Rightarrow> d | _ \<Rightarrow> [])"

fun is_dict :: "pyval \<Rightarrow> bool" where
  "is_dict (PDict d) = True"
| "is_dict _ = False"

definition records_are_dicts :: "pydict \<Rightarrow> bool" where
  "records_are_dicts config =
     list_all (\<lambda>k. case map_of config k of None \<Rightarrow> True | Some v \<Rightarrow> is_dict v)
       [''tcp'', ''ws'', ''grpc'', ''tls'', ''reality'']"

text \<open>The blocks \<open>_build_vless\<close> adds to the stream settings, by network kind and security mode.\<close>

definition transport_block :: "pydict \<Rightarrow> pyval \<Rightarrow> pydict" where
  "transport_block config network =
     (if network = PStr ''tcp'' then
        [(''tcpSettings'',
          PDict [(''header'',
            PDict [(''type'', dict_get (record_of config ''tcp'') ''header_type'' (PStr ''none''))])])]
      else if network = PStr ''ws'' then
        [(''wsSettings'',
          PDict [(''path'', dict_get (record_of config ''ws'') ''path'' (PStr ''/'')),
                 (''headers'',
                    (if truthy (dict_get (record_of config ''ws'') ''host'' PNone)
                     then PDict [(''Host'', dict_get (record_of config ''ws'') ''host'' (PStr ''''))]
                     else PDict []))])]
      else if network = PStr ''grpc'' then
        [(''grpcSettings'',
          PDict [(''serviceName'',
                  dict_get (record_of config ''grpc'') ''service_name'' (PStr ''''))])]
      else [])"

definition security_block :: "pydict \<Rightarrow> pyval \<Rightarrow> pyval \<Rightarrow> pydict" where
  "security_block config security server =
     (if security = PStr ''tls'' then
        [(''tlsSettings'',
          PDict [(''serverName'', dict_get (record_of config ''tls'') ''server_name'' server),
                 (''fingerprint'',
                    dict_get (record_of config ''tls'') ''fingerprint'' (PStr ''chrome'')),
                 (''alpn'', dict_get (record_of config ''tls'') ''alpn'' (PList []))])]
      else if security = PStr ''reality'' then
        [(''realitySettings'',
          PDict [(''serverName'', dict_get (record_of config ''tls'') ''server_name'' server),
                 (''fingerprint'',
                    dict_get (record_of config ''tls'') ''fingerprint'' (PStr ''chrome'')),
                 (''publicKey'', dict_get (record_of config ''reality'') ''public_key'' (PStr '''')),
                 (''shortId'', dict_get (record_of config ''reality'') ''short_id'' (PStr '''')),
                 (''spiderX'', dict_get (record_of config ''reality'') ''spider_x'' (PStr ''''))])]
      else [])"

text \<open>
  An endpoint as the assembler expects it: the scenario's values under the keys
  \<open>_build_vless\<close> reads, over WebSocket with no host supplied.
\<close>

definition keyed_endpoint :: pydict where
  "keyed_endpoint =
     [(''name'', PStr ''MyServer''),
      (''protocol'', PStr ''vless''),
      (''server'', PStr ''example.com''),
      (''port'', PInt 443),
      (''uuid'', PStr ''11111111-2222-3333-4444-555555555555''),
      (''encryption'', PStr ''none''),
      (''flow'', PStr ''''),
      (''network'', PStr ''ws''),
      (''security'', PStr ''tls''),
      (''ws'', PDict [(''path'', PStr ''/chat''), (''host'', PNone)]),
      (''tls'',
         PDict [(''server_name'', PStr ''cdn.example.com''),
                (''fingerprint'', PStr ''chrome''),
                (''alpn'', PList [PStr ''h2'', PStr ''http/1.1''])])]"

section \<open>Listener ports\<close>

text \<open>
  Claim C4. Constructing an inbound descriptor does not succeed for a port inside the open
  interval: the class statement of \<open>InboundConfig\<close> raises \<open>ValueError\<close> for the default
  \<open>{}\<close> of the field \<open>settings\<close>, so the class is never created and no port is ever examined.
\<close>

theorem InboundConfig_never_constructed:
  "InboundConfig_class =
     Inl (ValueError ''mutable default for field settings is not allowed: use default_factory'')
   \<and> InboundConfig_new 2000 SOCKS ''127.0.0.1'' 0 =
     Inl (ValueError ''mutable default for field settings is not allowed: use default_factory'')"
  by (simp add: InboundConfig_new_def InboundConfig_class_def and_then_def)

text \<open>
  The check of \<open>__post_init__\<close> itself, on a class that exists: the initialiser returns the
  descriptor exactly for the ports \<open>p\<close> with \<open>1024 < p < 65535\<close>, and raises \<open>ValueError\<close> for
  every other port.
\<close>

theorem InboundConfig_init_port_range:
  "(1024 < p \<and> p < 65535 \<and>
      InboundConfig_init p pr l s = Inr \<lparr>port = p, protocol = pr, listen = l, settings = s\<rparr>)
   \<or> ((p \<le> 1024 \<or> 65535 \<le> p) \<and>
      InboundConfig_init p pr l s = Inl (ValueError ''Port must be between 1025 and 65534''))"
  by (auto simp: InboundConfig_init_def)

section \<open>Dictionaries\<close>

lemma map_of_dict_set: "map_of (dict_set d k v) = (map_of d)(k \<mapsto> v)"
  by (induction d) auto

lemma dict_set_new: "k \<notin> fst ` set d \<Longrightarrow> dict_set d k v = d @ [(k, v)]"
  by (induction d) auto

lemma map_of_dict_update: "map_of (dict_update d other) = map_of d ++ map_of (rev other)"
  unfolding dict_update_def
proof (induction other arbitrary: d)
  case Nil
  show ?case by simp
next
  case (Cons kv other)
  obtain k v where kv: "kv = (k, v)" by (cases kv)
  show ?case
    by (simp add: kv Cons.IH map_of_dict_set map_add_def fun_eq_iff split: option.splits)
qed

section \<open>The builder\<close>

text \<open>
  Claim C3. In the manual path, assembling with an empty inbound list or an empty outbound
  list raises \<open>ValueError\<close>; whenever \<open>build_config\<close> raises, no document is returned, the
  state is the one it was called in, and one of the two lists is empty.
\<close>

theorem build_config_incomplete:
  "(inbound_configs (builder s) = [] \<or> outbound_configs (builder s) = [] \<longrightarrow>
      ClientConfig_build_config s =
        (Inl (ValueError (if inbound_configs (builder s) = []
                          then ''Inbound configuration is not set''
                          else ''Outbound configuration is not set'')), s))
   \<and> (\<forall>e. fst (ClientConfig_build_config s) = Inl e \<longrightarrow>
         snd (ClientConfig_build_config s) = s
         \<and> (inbound_configs (builder s) = [] \<or> outbound_configs (builder s) = []))"
  by (auto simp: ClientConfig_build_config_def validate_def split: if_splits)

theorem build_config_incomplete_witness:
  "inbound_configs (builder fresh_state) = []
   \<and> ClientConfig_build_config fresh_state =
       (Inl (ValueError ''Inbound configuration is not set''), fresh_state)
   \<and> fst (ClientConfig_build_config (add_inbound 0 fresh_state)) =
       Inl (ValueError ''Outbound configuration is not set'')
   \<and> snd (ClientConfig_build_config (add_inbound 0 fresh_state)) = add_inbound 0 fresh_state"
proof -
  have empty: "inbound_configs (builder fresh_state) = []"
    by (simp add: fresh_state_def ClientConfig_init_def)
  have no_outbound:
    "inbound_configs (builder (add_inbound 0 fresh_state)) \<noteq> []
     \<and> outbound_configs (builder (add_inbound 0 fresh_state)) = []"
    by (simp add: fresh_state_def ClientConfig_init_def add_inbound_def Let_def)
  from build_config_incomplete [of fresh_state] empty
  have first: "ClientConfig_build_config fresh_state =
      (Inl (ValueError ''Inbound configuration is not set''), fresh_state)"
    by simp
  from build_config_incomplete [of "add_inbound 0 fresh_state"] no_outbound
  have second: "ClientConfig_build_config (add_inbound 0 fresh_state) =
      (Inl (ValueError ''Outbound configuration is not set''), add_inbound 0 fresh_state)"
    by simp
  from empty first second show ?thesis by simp
qed

text \<open>
  Claim C10. \<open>add_inbound\<close> writes to the settings mapping of the descriptor passed, the
  object at the address the descriptor holds: it gains \<open>auth\<close>, \<open>udp\<close> and \<open>ip\<close> for SOCKS and
  \<open>timeout\<close> and \<open>allowTransparent\<close> for HTTP, its other keys keep their values, and every
  other mapping is as before. The address passed is appended to the inbound list, and no
  descriptor changes in any field. The rest of the builder and the files are as before.
\<close>

theorem add_inbound_in_place:
  "inbound_configs (builder (add_inbound a s)) = inbound_configs (builder s) @ [a]
   \<and> descriptors (add_inbound a s) = descriptors s
   \<and> map_of (mappings (add_inbound a s) (InboundConfig.settings (descriptors s a))) =
       (case InboundConfig.protocol (descriptors s a) of
          SOCKS \<Rightarrow>
            (map_of (mappings s (InboundConfig.settings (descriptors s a))))
              (''auth'' \<mapsto> PStr ''noauth'', ''udp'' \<mapsto> PBool True,
               ''ip'' \<mapsto> PStr (listen (descriptors s a)))
        | HTTP \<Rightarrow>
            (map_of (mappings s (InboundConfig.settings (descriptors s a))))
              (''timeout'' \<mapsto> PInt 0, ''allowTransparent'' \<mapsto> PBool False))
   \<and> (\<forall>m. m \<noteq> InboundConfig.settings (descriptors s a) \<longrightarrow>
         mappings (add_inbound a s) m = mappings s m)
   \<and> outbound_configs (builder (add_inbound a s)) = outbound_configs (builder s)
   \<and> log_level (builder (add_inbound a s)) = log_level (builder s)
   \<and> config_path (builder (add_inbound a s)) = config_path (builder s)
   \<and> files (add_inbound a s) = files s"
  by (cases "InboundConfig.protocol (descriptors s a)")
     (simp_all add: add_inbound_def Let_def map_of_dict_update fun_eq_iff map_add_def)

theorem add_inbound_in_place_witness:
  "inbound_configs (builder (add_inbound 3 fresh_state)) = [3]
   \<and> map_of (mappings (add_inbound 3 fresh_state) 3) ''ip'' = Some (PStr ''127.0.0.1'')
   \<and> map_of (mappings (add_inbound 3 fresh_state) 3) ''auth'' = Some (PStr ''noauth'')
   \<and> map_of (mappings (add_inbound 3 fresh_state) 3) ''udp'' = Some (PBool True)
   \<and> mappings (add_inbound 3 fresh_state) 4 = []
   \<and> port (descriptors (add_inbound 3 fresh_state) 3) = 1080"
proof -
  have d: "descriptors fresh_state 3 =
      \<lparr>port = 1080, protocol = SOCKS, listen = ''127.0.0.1'', settings = 3\<rparr>"
    by (simp add: fresh_state_def)
  have other: "(4::nat) \<noteq> InboundConfig.settings (descriptors fresh_state 3)"
    by (simp add: d)
  have before: "inbound_configs (builder fresh_state) = [] \<and> mappings fresh_state 4 = []"
    by (simp add: fresh_state_def ClientConfig_init_def)
  from add_inbound_in_place [of 3 fresh_state] other before show ?thesis
    by (simp add: d)
qed

section \<open>The decoder\<close>

lemma make_config_parts:
  "make_config remarks uuid server p params =
     base_config remarks uuid server p params @ transport_part params @ security_part server params"
  by (simp add: make_config_def Let_def dict_set_new base_config_def transport_part_def
        security_part_def alpn_list_def)

lemma split_n_one:
  "split_n sep (Suc 0) s =
     (if sep \<in> set s
      then [takeWhile (\<lambda>c. c \<noteq> sep) s, tl (dropWhile (\<lambda>c. c \<noteq> sep) s)]
      else [s])"
  by simp

lemma tl_dropWhile_drop:
  "tl (dropWhile P xs) = drop (Suc (length (takeWhile P xs))) xs"
  by (simp add: dropWhile_eq_drop drop_Suc tl_drop)

lemma takeWhile_absent: "x \<notin> set xs \<Longrightarrow> takeWhile (\<lambda>c. c \<noteq> x) xs = xs"
  by (induction xs) auto

lemma split_fragment_eq:
  "split_fragment s =
     Inr (takeWhile (\<lambda>c. c \<noteq> CHR ''#'') s,
          if CHR ''#'' \<in> set s then unquote (tl (dropWhile (\<lambda>c. c \<noteq> CHR ''#'') s))
          else ''VLESS'')"
  by (simp add: split_fragment_def split_n_one takeWhile_absent del: split_n.simps)

lemma parse_qsl_empty: "parse_qsl b [] = []"
  by (simp add: parse_qsl_def split_def parse_field_def)

lemma split_query_eq:
  "split_query u =
     Inr (takeWhile (\<lambda>c. c \<noteq> CHR ''?'') u,
          dict_of_pairs (parse_qsl False
            (drop (Suc (length (takeWhile (\<lambda>c. c \<noteq> CHR ''?'') u))) u)))"
proof (cases "CHR ''?'' \<in> set u")
  case True
  then show ?thesis
    by (simp add: split_query_def split_n_one tl_dropWhile_drop del: split_n.simps)
next
  case False
  then show ?thesis
    by (simp add: split_query_def parse_qsl_empty dict_of_pairs_def dict_update_def
          takeWhile_absent)
qed

text \<open>The decoder in terms of the pieces of the URI.\<close>

lemma parse_vless_eq:
  "parse_vless (strip url) =
     and_then (split_authority (authority url)) (\<lambda>(uuid, server, p).
       Inr (make_config
              (if CHR ''#'' \<in> set (replace ''vless://'' '''' (strip url))
               then unquote (tl (dropWhile (\<lambda>c. c \<noteq> CHR ''#'')
                                   (replace ''vless://'' '''' (strip url))))
               else ''VLESS'')
              uuid server p
              (dict_of_pairs (parse_qsl False (query_string url)))))"
  by (simp add: parse_vless_def split_fragment_eq split_query_eq and_then_def body_def
        authority_def query_string_def split: sum.splits prod.splits)

lemma parse_eq:
  "parse url =
     (if startswith (strip url) ''vless://''
      then map_sum id Some (parse_vless (strip url)) else Inr None)"
  by (simp add: parse_def Let_def)

lemma parse_Some_make_config:
  assumes "parse url = Inr (Some cfg)"
  shows "\<exists>remarks uuid server p.
           split_authority (authority url) = Inr (uuid, server, p)
         \<and> cfg = make_config remarks uuid server p
                   (dict_of_pairs (parse_qsl False (query_string url)))"
proof -
  from assms have v: "parse_vless (strip url) = Inr cfg"
    by (cases "parse_vless (strip url)") (auto simp: parse_eq split: if_splits)
  then show ?thesis
    unfolding parse_vless_eq
    by (cases "split_authority (authority url)") (auto simp: and_then_def)
qed

lemma make_config_lookup:
  "map_of (make_config remarks uuid server p params) k =
     (case map_of (base_config remarks uuid server p params) k of
        Some v \<Rightarrow> Some v
      | None \<Rightarrow>
          (case map_of (transport_part params) k of
             Some v \<Rightarrow> Some v
           | None \<Rightarrow> map_of (security_part server params) k))"
  by (simp add: make_config_parts map_add_def split: option.splits)

lemma make_config_network:
  "map_of (make_config remarks uuid server p params) ''network'' =
     Some (PStr (dict_get params ''network'' ''tcp''))"
  by (simp add: make_config_lookup base_config_def)

lemma make_config_security:
  "map_of (make_config remarks uuid server p params) ''security'' =
     Some (PStr (dict_get params ''security'' ''none''))"
  by (simp add: make_config_lookup base_config_def)


lemma make_config_tcp:
  "map_of (make_config remarks uuid server p params) ''tcp'' =
     (if dict_get params ''network'' ''tcp'' = ''tcp''
      then Some (PDict [(''header_type'', PStr (dict_get params ''headerType'' ''none''))])
      else None)"
  by (simp add: make_config_lookup base_config_def transport_part_def security_part_def Let_def)

lemma make_config_ws:
  "map_of (make_config remarks uuid server p params) ''ws'' =
     (if dict_get params ''network'' ''tcp'' = ''ws''
      then Some (PDict [(''path'', PStr (dict_get params ''path'' ''/'')),
                        (''host'', get_or_none params ''host'')])
      else None)"
  by (simp add: make_config_lookup base_config_def transport_part_def security_part_def Let_def)

lemma make_config_grpc:
  "map_of (make_config remarks uuid server p params) ''grpc'' =
     (if dict_get params ''network'' ''tcp'' = ''grpc''
      then Some (PDict [(''service_name'', PStr (dict_get params ''serviceName'' ''''))])
      else None)"
  by (simp add: make_config_lookup base_config_def transport_part_def security_part_def Let_def)

lemma make_config_tls:
  "map_of (make_config remarks uuid server p params) ''tls'' =
     (if dict_get params ''security'' ''none'' = ''tls''
         \<or> dict_get params ''security'' ''none'' = ''reality''
      then Some (PDict [(''server_name'', PStr (dict_get params ''sni'' server)),
                        (''fingerprint'', PStr (dict_get params ''fp'' ''chrome'')),
                        (''alpn'', alpn_list params)])
      else None)"
  by (simp add: make_config_lookup base_config_def transport_part_def security_part_def Let_def)

lemma make_config_reality:
  "map_of (make_config remarks uuid server p params) ''reality'' =
     (if dict_get params ''security'' ''none'' = ''reality''
      then Some (PDict [(''public_key'', PStr (dict_get params ''pbk'' '''')),
                        (''short_id'', PStr (dict_get params ''sid'' '''')),
                        (''spider_x'', PStr (dict_get params ''spx'' ''''))])
      else None)"
  by (simp add: make_config_lookup base_config_def transport_part_def security_part_def Let_def)

text \<open>
  Claim C2, as amended. A parsed endpoint holds at most one transport record: the one named
  by its network kind when that kind is \<open>tcp\<close>, \<open>ws\<close> or \<open>grpc\<close>, and none for any other
  kind, which the decoder accepts as it stands. The record holds the fields of its kind only.
\<close>

theorem parse_transport_records:
  assumes "parse url = Inr (Some cfg)"
  shows "\<exists>n. map_of cfg ''network'' = Some (PStr n)
           \<and> transport_records cfg = (if n \<in> {''tcp'', ''ws'', ''grpc''} then [n] else [])
           \<and> concat (map (record_keys cfg) [''tcp'', ''ws'', ''grpc'']) =
               (if n = ''tcp'' then [''header_type'']
                else if n = ''ws'' then [''path'', ''host'']
                else if n = ''grpc'' then [''service_name'']
                else [])"
proof -
  from parse_Some_make_config [OF assms] obtain remarks uuid server p where
    cfg: "cfg = make_config remarks uuid server p
                  (dict_of_pairs (parse_qsl False (query_string url)))"
    by blast
  show ?thesis
    unfolding cfg
    by (rule exI [of _ "dict_get (dict_of_pairs (parse_qsl False (query_string url))) ''network'' ''tcp''"])
       (simp add: make_config_network transport_records_def record_keys_def
          make_config_tcp make_config_ws make_config_grpc)
qed

text \<open>
  A URI of network kind \<open>kcp\<close> is accepted, and its endpoint has no transport record.
\<close>

theorem transport_record_missing:
  "parse ''vless://11111111-2222-3333-4444-555555555555@example.com:443?network=kcp'' =
     Inr (Some
       [(''name'', PStr ''VLESS''),
        (''protocol'', PStr ''vless''),
        (''serverr'', PStr ''example.com''),
        (''port'', PInt 443),
        (''uuid'', PStr ''11111111-2222-3333-4444-555555555555''),
        (''enctyption'', PStr ''none''),
        (''flow'', PStr ''''),
        (''network'', PStr ''kcp''),
        (''security'', PStr ''none'')])
   \<and> transport_records
       [(''name'', PStr ''VLESS''),
        (''protocol'', PStr ''vless''),
        (''serverr'', PStr ''example.com''),
        (''port'', PInt 443),
        (''uuid'', PStr ''11111111-2222-3333-4444-555555555555''),
        (''enctyption'', PStr ''none''),
        (''flow'', PStr ''''),
        (''network'', PStr ''kcp''),
        (''security'', PStr ''none'')] = []"
  by code_simp

theorem parse_transport_records_witness:
  "parse ''vless://u@example.com:443?network=ws&path=/chat'' =
     Inr (Some
       [(''name'', PStr ''VLESS''),
        (''protocol'', PStr ''vless''),
        (''serverr'', PStr ''example.com''),
        (''port'', PInt 443),
        (''uuid'', PStr ''u''),
        (''enctyption'', PStr ''none''),
        (''flow'', PStr ''''),
        (''network'', PStr ''ws''),
        (''security'', PStr ''none''),
        (''ws'', PDict [(''path'', PStr ''/chat''), (''host'', PNone)])])
   \<and> transport_records
       [(''name'', PStr ''VLESS''),
        (''protocol'', PStr ''vless''),
        (''serverr'', PStr ''example.com''),
        (''port'', PInt 443),
        (''uuid'', PStr ''u''),
        (''enctyption'', PStr ''none''),
        (''flow'', PStr ''''),
        (''network'', PStr ''ws''),
        (''security'', PStr ''none''),
        (''ws'', PDict [(''path'', PStr ''/chat''), (''host'', PNone)])] = [''ws'']"
proof -
  let ?cfg = "[(''name'', PStr ''VLESS''),
        (''protocol'', PStr ''vless''),
        (''serverr'', PStr ''example.com''),
        (''port'', PInt 443),
        (''uuid'', PStr ''u''),
        (''enctyption'', PStr ''none''),
        (''flow'', PStr ''''),
        (''network'', PStr ''ws''),
        (''security'', PStr ''none''),
        (''ws'', PDict [(''path'', PStr ''/chat''), (''host'', PNone)])]"
  have decoded: "parse ''vless://u@example.com:443?network=ws&path=/chat'' = Inr (Some ?cfg)"
    by code_simp
  from parse_transport_records [OF decoded] obtain n where
    n: "map_of ?cfg ''network'' = Some (PStr n)" and
    recs: "transport_records ?cfg = (if n \<in> {''tcp'', ''ws'', ''grpc''} then [n] else [])"
    by blast
  from n have "n = ''ws''" by simp
  with recs decoded show ?thesis by simp
qed

section \<open>The authority segment\<close>











section \<open>The query string\<close>

lemma map_of_dict_of_pairs: "map_of (dict_of_pairs ps) = map_of (rev ps)"
  by (simp add: dict_of_pairs_def map_of_dict_update)

lemma map_of_rev_last:
  "map_of (rev ps) k =
     (case filter (\<lambda>kv. fst kv = k) ps of [] \<Rightarrow> None | x # xs \<Rightarrow> Some (snd (last (x # xs))))"
proof (induction ps rule: rev_induct)
  case Nil
  show ?case by simp
next
  case (snoc kv ps)
  show ?case
  proof (cases "fst kv = k")
    case True
    then show ?thesis
      by (cases kv; cases "filter (\<lambda>kv. fst kv = k) ps") simp_all
  next
    case False
    then show ?thesis
      using snoc.IH by (cases kv) simp
  qed
qed

lemma unquote_empty: "(unquote s = []) = (s = [])"
  by (cases s rule: unquote.cases) (simp_all split: option.splits)

lemma plus_to_space_empty: "(plus_to_space s = []) = (s = [])"
  by (simp add: plus_to_space_def)

lemma parse_field_blank:
  "parse_field False f = filter (\<lambda>kv. snd kv \<noteq> []) (parse_field True f)"
  by (simp add: parse_field_def unquote_empty plus_to_space_empty
        split: list.splits del: split_n.simps)

lemma parse_qsl_blank:
  "parse_qsl False q = filter (\<lambda>kv. snd kv \<noteq> []) (parse_qsl True q)"
proof -
  have "parse_field False = (\<lambda>f. filter (\<lambda>kv. snd kv \<noteq> []) (parse_field True f))"
    by (rule ext) (rule parse_field_blank)
  then show ?thesis
    by (simp add: parse_qsl_def filter_concat comp_def)
qed

text \<open>
  What the dictionary of the query holds under a key: the last value that is not empty among
  those the query gives it.
\<close>

lemma params_lookup:
  "map_of (dict_of_pairs (parse_qsl False q)) k =
     (case filter (\<lambda>v. v \<noteq> [])
             (map snd (filter (\<lambda>kv. fst kv = k) (parse_qsl True q))) of
        [] \<Rightarrow> None
      | w # ws \<Rightarrow> Some (last (w # ws)))"
proof -
  let ?all = "parse_qsl True q"
  have "filter (\<lambda>kv. fst kv = k) (filter (\<lambda>kv. snd kv \<noteq> []) ?all) =
        filter (\<lambda>kv. snd kv \<noteq> []) (filter (\<lambda>kv. fst kv = k) ?all)"
    by (simp add: conj_commute)
  moreover have "filter (\<lambda>v. v \<noteq> []) (map snd (filter (\<lambda>kv. fst kv = k) ?all)) =
        map snd (filter (\<lambda>kv. snd kv \<noteq> []) (filter (\<lambda>kv. fst kv = k) ?all))"
    by (simp add: filter_map comp_def)
  ultimately show ?thesis
    by (simp add: map_of_dict_of_pairs map_of_rev_last parse_qsl_blank last_map
          split: list.splits)
qed

lemma alpn_list_eq:
  "alpn_list (dict_of_pairs (parse_qsl False (query_string url))) =
     PList (case filter (\<lambda>v. v \<noteq> []) (alpn_values url) of
              [] \<Rightarrow> []
            | w # ws \<Rightarrow> map PStr (split (CHR '','') (last (w # ws))))"
proof (cases "filter (\<lambda>v. v \<noteq> []) (alpn_values url)")
  case Nil
  then show ?thesis
    by (simp add: alpn_list_def get_or_none_def params_lookup alpn_values_def)
next
  case (Cons w ws)
  then have "last (w # ws) \<in> set (filter (\<lambda>v. v \<noteq> []) (alpn_values url))"
    by (metis last_in_set list.distinct(1))
  then have "last (w # ws) \<noteq> []" by simp
  with Cons show ?thesis
    by (simp add: alpn_list_def get_or_none_def dict_get_def params_lookup alpn_values_def)
qed

text \<open>
  Claim C8, as amended. The ALPN list is a field of the security record, which the parsed
  endpoint has only when the security mode is \<open>tls\<close> or \<open>reality\<close>. It is then the empty list
  when every value the query gives \<open>alpn\<close> is empty, as in \<open>alpn=\<close>, and otherwise the last
  value that is not empty, split at its commas: the query parser drops the empty values
  before a later pair can replace an earlier one.
\<close>

theorem parse_alpn:
  assumes "parse url = Inr (Some cfg)"
  shows
    "\<exists>sec. map_of cfg ''security'' = Some (PStr sec)
       \<and> (sec \<notin> {''tls'', ''reality''} \<longrightarrow> alpn_field cfg = None)
       \<and> (sec \<in> {''tls'', ''reality''} \<longrightarrow>
            ((\<forall>v \<in> set (alpn_values url). v = []) \<longrightarrow> alpn_field cfg = Some (PList []))
            \<and> (\<forall>v. filter (\<lambda>v. v \<noteq> []) (alpn_values url) \<noteq> []
                    \<and> last (filter (\<lambda>v. v \<noteq> []) (alpn_values url)) = v
                  \<longrightarrow> alpn_field cfg = Some (PList (map PStr (split (CHR '','') v)))))"
proof -
  let ?params = "dict_of_pairs (parse_qsl False (query_string url))"
  from parse_Some_make_config [OF assms] obtain remarks uuid server p where
    cfg: "cfg = make_config remarks uuid server p ?params"
    by blast
  have none: "\<forall>v \<in> set (alpn_values url). v = [] \<Longrightarrow>
      filter (\<lambda>v. v \<noteq> []) (alpn_values url) = []"
    by (simp add: filter_empty_conv)
  have field: "alpn_field cfg =
      (if dict_get ?params ''security'' ''none'' = ''tls''
          \<or> dict_get ?params ''security'' ''none'' = ''reality''
       then Some (alpn_list ?params) else None)"
    unfolding cfg by (simp add: alpn_field_def make_config_tls)
  show ?thesis
    apply (rule exI [of _ "dict_get ?params ''security'' ''none''"])
    unfolding field alpn_list_eq
    by (auto simp: cfg make_config_security none split: list.splits)
qed

text \<open>
  Two decoded URIs whose query holds \<open>alpn=\<close>. In the first the security mode is the default
  \<open>none\<close>: decoding succeeds and the endpoint has no ALPN field. In the second a value that
  is not empty precedes the empty one, and the field holds that value.
\<close>

theorem alpn_field_not_empty_list:
  "map_sum id (map_option alpn_field) (parse ''vless://u@example.com:443?alpn='') =
     Inr (Some None)
   \<and> alpn_values ''vless://u@example.com:443?security=tls&alpn=h2&alpn='' = [''h2'', '''']
   \<and> map_sum id (map_option alpn_field)
         (parse ''vless://u@example.com:443?security=tls&alpn=h2&alpn='') =
       Inr (Some (Some (PList [PStr ''h2''])))"
  by code_simp

theorem parse_alpn_witness:
  "alpn_field
     [(''name'', PStr ''VLESS''),
      (''protocol'', PStr ''vless''),
      (''serverr'', PStr ''example.com''),
      (''port'', PInt 443),
      (''uuid'', PStr ''u''),
      (''enctyption'', PStr ''none''),
      (''flow'', PStr ''''),
      (''network'', PStr ''tcp''),
      (''security'', PStr ''tls''),
      (''tcp'', PDict [(''header_type'', PStr ''none'')]),
      (''tls'',
         PDict [(''server_name'', PStr ''example.com''),
                (''fingerprint'', PStr ''chrome''),
                (''alpn'', PList [])])] = Some (PList [])"
proof -
  let ?url = "''vless://u@example.com:443?security=tls&alpn=''"
  let ?cfg = "[(''name'', PStr ''VLESS''),
      (''protocol'', PStr ''vless''),
      (''serverr'', PStr ''example.com''),
      (''port'', PInt 443),
      (''uuid'', PStr ''u''),
      (''enctyption'', PStr ''none''),
      (''flow'', PStr ''''),
      (''network'', PStr ''tcp''),
      (''security'', PStr ''tls''),
      (''tcp'', PDict [(''header_type'', PStr ''none'')]),
      (''tls'',
         PDict [(''server_name'', PStr ''example.com''),
                (''fingerprint'', PStr ''chrome''),
                (''alpn'', PList [])])]"
  have decoded: "parse ?url = Inr (Some ?cfg)" by code_simp
  have blank: "alpn_values ?url = ['''']" by code_simp
  have sec: "map_of ?cfg ''security'' = Some (PStr ''tls'')" by simp
  from parse_alpn [OF decoded] sec blank show ?thesis by auto
qed

section \<open>Decoding, then assembling\<close>

text \<open>
  Claim C1. The scenario URI decodes to the endpoint shown: display name \<open>MyServer\<close>, host
  \<open>example.com\<close> (under the key \<open>serverr\<close>), port 443, security \<open>tls\<close>, ALPN list
  \<open>h2\<close>, \<open>http/1.1\<close>. Passing this endpoint to \<open>build_config\<close> raises \<open>KeyError\<close>: the
  assembler reads the key \<open>server\<close>, which the decoder never writes. No document is produced.
\<close>

theorem scenario_assembly_raises:
  "parse ''vless://11111111-2222-3333-4444-555555555555@example.com:443?security=tls&sni=cdn.example.com&fp=chrome&alpn=h2,http/1.1#MyServer''
     = Inr (Some
        [(''name'', PStr ''MyServer''),
         (''protocol'', PStr ''vless''),
         (''serverr'', PStr ''example.com''),
         (''port'', PInt 443),
         (''uuid'', PStr ''11111111-2222-3333-4444-555555555555''),
         (''enctyption'', PStr ''none''),
         (''flow'', PStr ''''),
         (''network'', PStr ''tcp''),
         (''security'', PStr ''tls''),
         (''tcp'', PDict [(''header_type'', PStr ''none'')]),
         (''tls'',
            PDict [(''server_name'', PStr ''cdn.example.com''),
                   (''fingerprint'', PStr ''chrome''),
                   (''alpn'', PList [PStr ''h2'', PStr ''http/1.1''])])])
   \<and> decode_then_assemble
        ''vless://11111111-2222-3333-4444-555555555555@example.com:443?security=tls&sni=cdn.example.com&fp=chrome&alpn=h2,http/1.1#MyServer''
        1080
     = Inl (KeyError ''server'')"
  by code_simp

text \<open>
  Claim C6. A URI with a security mode outside \<open>none\<close>, \<open>tls\<close> and \<open>reality\<close> decodes without
  error to an endpoint with no security record. Assembling that endpoint raises \<open>KeyError\<close>
  for the key \<open>server\<close>, so there is no outbound whose blocks could be inspected.
\<close>

theorem unknown_security_assembly_raises:
  "parse ''vless://11111111-2222-3333-4444-555555555555@example.com:443?security=xtls''
     = Inr (Some
        [(''name'', PStr ''VLESS''),
         (''protocol'', PStr ''vless''),
         (''serverr'', PStr ''example.com''),
         (''port'', PInt 443),
         (''uuid'', PStr ''11111111-2222-3333-4444-555555555555''),
         (''enctyption'', PStr ''none''),
         (''flow'', PStr ''''),
         (''network'', PStr ''tcp''),
         (''security'', PStr ''xtls''),
         (''tcp'', PDict [(''header_type'', PStr ''none'')])])
   \<and> decode_then_assemble
        ''vless://11111111-2222-3333-4444-555555555555@example.com:443?security=xtls'' 1080
     = Inl (KeyError ''server'')"
  by code_simp

text \<open>
  Claim C7. A URI of network kind WebSocket decodes to an endpoint with the record \<open>ws\<close>.
  Assembling that endpoint raises \<open>KeyError\<close> for the key \<open>server\<close> before any transport
  block is written, so no \<open>wsSettings\<close> exists.
\<close>

theorem websocket_assembly_raises:
  "parse ''vless://11111111-2222-3333-4444-555555555555@example.com:443?network=ws&path=/chat&host=cdn.example.com''
     = Inr (Some
        [(''name'', PStr ''VLESS''),
         (''protocol'', PStr ''vless''),
         (''serverr'', PStr ''example.com''),
         (''port'', PInt 443),
         (''uuid'', PStr ''11111111-2222-3333-4444-555555555555''),
         (''enctyption'', PStr ''none''),
         (''flow'', PStr ''''),
         (''network'', PStr ''ws''),
         (''security'', PStr ''none''),
         (''ws'', PDict [(''path'', PStr ''/chat''), (''host'', PStr ''cdn.example.com'')])])
   \<and> decode_then_assemble
        ''vless://11111111-2222-3333-4444-555555555555@example.com:443?network=ws&path=/chat&host=cdn.example.com''
        1080
     = Inl (KeyError ''server'')"
  by code_simp

section \<open>Saving and loading\<close>






section \<open>The assembler of the decoder on an endpoint with the keys it reads\<close>

lemma as_dict_record:
  "(case map_of config k of None \<Rightarrow> True | Some v \<Rightarrow> is_dict v) \<Longrightarrow>
   as_dict (dict_get config k (PDict [])) = Inr (record_of config k)"
  by (cases "map_of config k"; cases "the (map_of config k)")
     (simp_all add: dict_get_def record_of_def)

lemma transport_settings_block:
  assumes "records_are_dicts config"
  shows "transport_settings config network [(''network'', network), (''security'', security)] =
     Inr ([(''network'', network), (''security'', security)] @ transport_block config network)"
proof -
  from assms have
    "as_dict (dict_get config ''tcp'' (PDict [])) = Inr (record_of config ''tcp'')"
    "as_dict (dict_get config ''ws'' (PDict [])) = Inr (record_of config ''ws'')"
    "as_dict (dict_get config ''grpc'' (PDict [])) = Inr (record_of config ''grpc'')"
    by (simp_all add: records_are_dicts_def as_dict_record)
  then show ?thesis
    by (simp add: transport_settings_def transport_block_def)
qed

lemma transport_block_keys:
  "''tlsSettings'' \<notin> fst ` set (transport_block config network)
   \<and> ''realitySettings'' \<notin> fst ` set (transport_block config network)"
  by (auto simp: transport_block_def)

lemma security_settings_block:
  assumes "records_are_dicts config"
  shows "security_settings config security server
           ((''network'', network) # (''security'', security) # transport_block config network) =
     Inr ((''network'', network) # (''security'', security) # transport_block config network
          @ security_block config security server)"
proof -
  from assms have
    "as_dict (dict_get config ''tls'' (PDict [])) = Inr (record_of config ''tls'')"
    "as_dict (dict_get config ''reality'' (PDict [])) = Inr (record_of config ''reality'')"
    by (simp_all add: records_are_dicts_def as_dict_record)
  then show ?thesis
    using transport_block_keys [of config network]
    by (simp add: security_settings_def security_block_def dict_set_new Let_def)
qed

lemma build_vless_blocks:
  assumes "map_of config ''server'' = Some server"
    and "map_of config ''port'' = Some server_port"
    and "map_of config ''uuid'' = Some uuid"
    and "map_of config ''encryption'' = Some encryption"
    and "map_of config ''network'' = Some network"
    and "map_of config ''security'' = Some security"
    and "records_are_dicts config"
  shows "build_vless config =
     Inr (PDict
       [(''protocol'', PStr ''vless''),
        (''settings'',
           PDict [(''vnext'',
             PList [PDict
               [(''address'', server),
                (''port'', server_port),
                (''users'',
                   PList [PDict
                     [(''id'', uuid),
                      (''encryption'', encryption),
                      (''flow'', dict_get config ''flow'' (PStr ''''))]])]])]),
        (''streamSettings'',
           PDict ([(''network'', network), (''security'', security)]
                  @ transport_block config network
                  @ security_block config security server))])"
  using assms(1-6)
  by (simp add: build_vless_def dict_item_def and_then_def
        transport_settings_block [OF assms(7)] security_settings_block [OF assms(7)])

lemma transport_block_lookup:
  "map_of (transport_block config network) ''tcpSettings'' =
     (if network = PStr ''tcp'' then
        Some (PDict [(''header'',
          PDict [(''type'', dict_get (record_of config ''tcp'') ''header_type'' (PStr ''none''))])])
      else None)"
  "map_of (transport_block config network) ''wsSettings'' =
     (if network = PStr ''ws'' then
        Some (PDict [(''path'', dict_get (record_of config ''ws'') ''path'' (PStr ''/'')),
                     (''headers'',
                        (if truthy (dict_get (record_of config ''ws'') ''host'' PNone)
                         then PDict [(''Host'',
                                dict_get (record_of config ''ws'') ''host'' (PStr ''''))]
                         else PDict []))])
      else None)"
  "map_of (transport_block config network) ''grpcSettings'' =
     (if network = PStr ''grpc'' then
        Some (PDict [(''serviceName'',
                dict_get (record_of config ''grpc'') ''service_name'' (PStr ''''))])
      else None)"
  by (simp_all add: transport_block_def)

lemma security_block_lookup:
  "map_of (security_block config security server) ''tcpSettings'' = None"
  "map_of (security_block config security server) ''wsSettings'' = None"
  "map_of (security_block config security server) ''grpcSettings'' = None"
  "map_of (security_block config security server) ''tlsSettings'' =
     (if security = PStr ''tls'' then
        Some (PDict
          [(''serverName'', dict_get (record_of config ''tls'') ''server_name'' server),
           (''fingerprint'', dict_get (record_of config ''tls'') ''fingerprint'' (PStr ''chrome'')),
           (''alpn'', dict_get (record_of config ''tls'') ''alpn'' (PList []))])
      else None)"
  "map_of (security_block config security server) ''realitySettings'' =
     (if security = PStr ''reality'' then
        Some (PDict
          [(''serverName'', dict_get (record_of config ''tls'') ''server_name'' server),
           (''fingerprint'', dict_get (record_of config ''tls'') ''fingerprint'' (PStr ''chrome'')),
           (''publicKey'', dict_get (record_of config ''reality'') ''public_key'' (PStr '''')),
           (''shortId'', dict_get (record_of config ''reality'') ''short_id'' (PStr '''')),
           (''spiderX'', dict_get (record_of config ''reality'') ''spider_x'' (PStr ''''))])
      else None)"
  by (simp_all add: security_block_def)

lemma transport_block_no_security:
  "map_of (transport_block config network) ''tlsSettings'' = None"
  "map_of (transport_block config network) ''realitySettings'' = None"
  by (simp_all add: transport_block_def)

text \<open>
  The transport mapping of \<open>_build_vless\<close>, on an endpoint that has the keys the assembler
  reads (\<open>server\<close>, \<open>port\<close>, \<open>uuid\<close>, \<open>encryption\<close>, \<open>network\<close>, \<open>security\<close>) and whose records are
  dictionaries. The outbound is assembled, and its stream settings hold the block of the
  network kind and of no other: for \<open>tcp\<close> the header type, \<open>none\<close> by default; for \<open>ws\<close> the
  path, \<open>/\<close> by default, and headers with a \<open>Host\<close> entry exactly when the endpoint's host is
  a value Python holds true; for \<open>grpc\<close> the service name, empty by default.
\<close>

theorem build_vless_transport:
  assumes "map_of config ''server'' = Some server"
    and "map_of config ''port'' = Some server_port"
    and "map_of config ''uuid'' = Some uuid"
    and "map_of config ''encryption'' = Some encryption"
    and "map_of config ''network'' = Some network"
    and "map_of config ''security'' = Some security"
    and "records_are_dicts config"
  shows "\<exists>outbound stream.
      build_vless config = Inr (PDict outbound)
    \<and> map_of outbound ''streamSettings'' = Some (PDict stream)
    \<and> map_of stream ''tcpSettings'' =
        (if network = PStr ''tcp'' then
           Some (PDict [(''header'',
             PDict [(''type'',
               dict_get (record_of config ''tcp'') ''header_type'' (PStr ''none''))])])
         else None)
    \<and> map_of stream ''wsSettings'' =
        (if network = PStr ''ws'' then
           Some (PDict [(''path'', dict_get (record_of config ''ws'') ''path'' (PStr ''/'')),
                        (''headers'',
                           (if truthy (dict_get (record_of config ''ws'') ''host'' PNone)
                            then PDict [(''Host'',
                                   dict_get (record_of config ''ws'') ''host'' (PStr ''''))]
                            else PDict []))])
         else None)
    \<and> map_of stream ''grpcSettings'' =
        (if network = PStr ''grpc'' then
           Some (PDict [(''serviceName'',
                   dict_get (record_of config ''grpc'') ''service_name'' (PStr ''''))])
         else None)"
  unfolding build_vless_blocks [OF assms]
  by (intro exI conjI, rule refl, simp)
     (simp_all add: map_add_def transport_block_lookup security_block_lookup)

text \<open>
  The security mapping of \<open>_build_vless\<close>, on the same endpoints: a TLS block for \<open>tls\<close>, a
  reality block for \<open>reality\<close>, and neither for any other security mode.
\<close>

theorem build_vless_security:
  assumes "map_of config ''server'' = Some server"
    and "map_of config ''port'' = Some server_port"
    and "map_of config ''uuid'' = Some uuid"
    and "map_of config ''encryption'' = Some encryption"
    and "map_of config ''network'' = Some network"
    and "map_of config ''security'' = Some security"
    and "records_are_dicts config"
  shows "\<exists>outbound stream.
      build_vless config = Inr (PDict outbound)
    \<and> map_of outbound ''streamSettings'' = Some (PDict stream)
    \<and> map_of stream ''tlsSettings'' =
        (if security = PStr ''tls'' then
           Some (PDict
             [(''serverName'', dict_get (record_of config ''tls'') ''server_name'' server),
              (''fingerprint'',
                 dict_get (record_of config ''tls'') ''fingerprint'' (PStr ''chrome'')),
              (''alpn'', dict_get (record_of config ''tls'') ''alpn'' (PList []))])
         else None)
    \<and> map_of stream ''realitySettings'' =
        (if security = PStr ''reality'' then
           Some (PDict
             [(''serverName'', dict_get (record_of config ''tls'') ''server_name'' server),
              (''fingerprint'',
                 dict_get (record_of config ''tls'') ''fingerprint'' (PStr ''chrome'')),
              (''publicKey'', dict_get (record_of config ''reality'') ''public_key'' (PStr '''')),
              (''shortId'', dict_get (record_of config ''reality'') ''short_id'' (PStr '''')),
              (''spiderX'', dict_get (record_of config ''reality'') ''spider_x'' (PStr ''''))])
         else None)"
  unfolding build_vless_blocks [OF assms]
  by (intro exI conjI, rule refl, simp)
     (simp_all add: map_add_def transport_block_no_security security_block_lookup)

lemma keyed_endpoint_keys:
  "map_of keyed_endpoint ''server'' = Some (PStr ''example.com'')"
  "map_of keyed_endpoint ''port'' = Some (PInt 443)"
  "map_of keyed_endpoint ''uuid'' = Some (PStr ''11111111-2222-3333-4444-555555555555'')"
  "map_of keyed_endpoint ''encryption'' = Some (PStr ''none'')"
  "map_of keyed_endpoint ''network'' = Some (PStr ''ws'')"
  "map_of keyed_endpoint ''security'' = Some (PStr ''tls'')"
  "records_are_dicts keyed_endpoint"
  by (simp_all add: keyed_endpoint_def records_are_dicts_def)

theorem build_vless_transport_witness:
  "\<exists>outbound stream.
      build_vless keyed_endpoint = Inr (PDict outbound)
    \<and> map_of outbound ''streamSettings'' = Some (PDict stream)
    \<and> map_of stream ''wsSettings'' =
        Some (PDict [(''path'', PStr ''/chat''), (''headers'', PDict [])])
    \<and> map_of stream ''tcpSettings'' = None
    \<and> map_of stream ''grpcSettings'' = None"
proof -
  have ws: "record_of keyed_endpoint ''ws'' = [(''path'', PStr ''/chat''), (''host'', PNone)]"
    by (simp add: keyed_endpoint_def record_of_def)
  from build_vless_transport [OF keyed_endpoint_keys] show ?thesis
    by (auto simp: ws dict_get_def)
qed

theorem build_vless_security_witness:
  "\<exists>outbound stream.
      build_vless keyed_endpoint = Inr (PDict outbound)
    \<and> map_of outbound ''streamSettings'' = Some (PDict stream)
    \<and> map_of stream ''tlsSettings'' =
        Some (PDict [(''serverName'', PStr ''cdn.example.com''),
                     (''fingerprint'', PStr ''chrome''),
                     (''alpn'', PList [PStr ''h2'', PStr ''http/1.1''])])
    \<and> map_of stream ''realitySettings'' = None"
proof -
  have tls: "record_of keyed_endpoint ''tls'' =
      [(''server_name'', PStr ''cdn.example.com''),
       (''fingerprint'', PStr ''chrome''),
       (''alpn'', PList [PStr ''h2'', PStr ''http/1.1''])]"
    by (simp add: keyed_endpoint_def record_of_def)
  from build_vless_security [OF keyed_endpoint_keys] show ?thesis
    by (auto simp: tls dict_get_def)
qed

text \<open>
  The security records of a parsed endpoint: the record \<open>tls\<close> is present exactly when the
  security mode is \<open>tls\<close> or \<open>reality\<close>, and the record \<open>reality\<close> exactly when it is
  \<open>reality\<close>. The mode is whatever the query holds; no mode makes the decoder raise.
\<close>

theorem parse_security_records:
  assumes "parse url = Inr (Some cfg)"
  shows "\<exists>sec. map_of cfg ''security'' = Some (PStr sec)
           \<and> (map_of cfg ''tls'' \<noteq> None) = (sec = ''tls'' \<or> sec = ''reality'')
           \<and> (map_of cfg ''reality'' \<noteq> None) = (sec = ''reality'')"
proof -
  from parse_Some_make_config [OF assms] obtain remarks uuid server p where
    cfg: "cfg = make_config remarks uuid server p
                  (dict_of_pairs (parse_qsl False (query_string url)))"
    by blast
  show ?thesis
    unfolding cfg
    by (rule exI [of _ "dict_get (dict_of_pairs (parse_qsl False (query_string url))) ''security'' ''none''"])
       (simp add: make_config_security make_config_tls make_config_reality)
qed

theorem parse_security_records_witness:
  "\<exists>cfg. parse ''vless://u@example.com:443?security=reality&pbk=KEY&sid=ab'' = Inr (Some cfg)
     \<and> map_of cfg ''security'' = Some (PStr ''reality'')
     \<and> map_of cfg ''tls'' \<noteq> None
     \<and> map_of cfg ''reality'' \<noteq> None"
proof -
  let ?cfg = "[(''name'', PStr ''VLESS''),
      (''protocol'', PStr ''vless''),
      (''serverr'', PStr ''example.com''),
      (''port'', PInt 443),
      (''uuid'', PStr ''u''),
      (''enctyption'', PStr ''none''),
      (''flow'', PStr ''''),
      (''network'', PStr ''tcp''),
      (''security'', PStr ''reality''),
      (''tcp'', PDict [(''header_type'', PStr ''none'')]),
      (''tls'',
         PDict [(''server_name'', PStr ''example.com''),
                (''fingerprint'', PStr ''chrome''),
                (''alpn'', PList [])]),
      (''reality'',
         PDict [(''public_key'', PStr ''KEY''),
                (''short_id'', PStr ''ab''),
                (''spider_x'', PStr '''')])]"
  have decoded:
    "parse ''vless://u@example.com:443?security=reality&pbk=KEY&sid=ab'' = Inr (Some ?cfg)"
    by code_simp
  have sec: "map_of ?cfg ''security'' = Some (PStr ''reality'')" by simp
  from parse_security_records [OF decoded] sec
  have "map_of ?cfg ''tls'' \<noteq> None \<and> map_of ?cfg ''reality'' \<noteq> None"
    by (metis option.inject pyval.inject(3))
  with decoded sec show ?thesis by blast
qed

end
